theory Spec2Isabelle
  imports Main "HOL-Library.Word" "HOL-Library.Sublist"
begin

section \<open>Data model\<close>

text \<open>
  The Kubernetes API types the two source files build (\<open>corev1.ServicePort\<close>,
  \<open>corev1.Service\<close>, \<open>metav1.ObjectMeta\<close>, \<open>v1alpha1.Instrumentation\<close>) are
  records with the fields the source reads or writes. A Go \<open>int32\<close> is a 32-bit word, a Go
  \<open>map[string]string\<close> is a partial function, a Go pointer that may be \<open>nil\<close> is an
  option, and a Go \<open>(value, error)\<close> result is a sum with the error on the left.
\<close>

type_synonym int32 = "32 word"

datatype error = Error string

datatype IntOrString = IntVal int32 | StrVal string

record ServicePort =
  sp_Name :: string
  sp_Protocol :: string
  sp_AppProtocol :: "string option"
  sp_Port :: int32
  sp_TargetPort :: IntOrString
  sp_NodePort :: int32

record ObjectMeta =
  om_Name :: string
  om_Namespace :: string
  om_Labels :: "string \<rightharpoonup> string"
  om_Annotations :: "string \<rightharpoonup> string"

datatype ServiceInternalTrafficPolicy =
  ServiceInternalTrafficPolicyCluster | ServiceInternalTrafficPolicyLocal

record ServiceSpec =
  ss_InternalTrafficPolicy :: "ServiceInternalTrafficPolicy option"
  ss_Selector :: "string \<rightharpoonup> string"
  ss_ClusterIP :: string
  ss_Ports :: "ServicePort list"

record corev1_Service =
  svc_ObjectMeta :: ObjectMeta
  svc_Spec :: ServiceSpec

type_synonym Mode = string

record AmazonCloudWatchAgentSpec =
  spec_Mode :: Mode
  spec_Ports :: "ServicePort list"
  spec_Config :: string
  spec_Image :: string

record AmazonCloudWatchAgent =
  cr_ObjectMeta :: ObjectMeta
  cr_Spec :: AmazonCloudWatchAgentSpec

text \<open>
  \<open>manifests.Params\<close>: the builders read only \<open>OtelCol\<close> and \<open>Log\<close>. The logger
  calls write a diagnostic and return nothing, so they have no part in any returned value
  and are left out of the model.
\<close>

record Params =
  OtelCol :: AmazonCloudWatchAgent

text \<open>
  The helpers and constants that \<open>service.go\<close> imports from packages whose files are not
  part of the sources at hand (\<open>naming\<close>, \<open>manifestutils\<close>, \<open>adapters\<close>,
  \<open>constants\<close>, \<open>v1alpha1.ModeDaemonSet\<close>, \<open>ComponentAmazonCloudWatchAgent\<close>) are
  parameters of the model: every theorem below holds for whatever they compute.
\<close>

record 'cfg collaborators =
  naming_Service :: "string \<Rightarrow> string"
  naming_HeadlessService :: "string \<Rightarrow> string"
  naming_MonitoringService :: "string \<Rightarrow> string"
  manifestutils_Labels ::
    "ObjectMeta \<Rightarrow> string \<Rightarrow> string \<Rightarrow> string \<Rightarrow> string list \<Rightarrow> (string \<rightharpoonup> string)"
  manifestutils_SelectorLabels :: "ObjectMeta \<Rightarrow> string \<Rightarrow> (string \<rightharpoonup> string)"
  adapters_ConfigFromString :: "string \<Rightarrow> error + 'cfg"
  adapters_ConfigToMetricsPort :: "'cfg \<Rightarrow> error + int32"
  constants_CloudwatchAgentPorts :: "ServicePort list"
  v1alpha1_ModeDaemonSet :: Mode
  ComponentAmazonCloudWatchAgent :: string

section \<open>Formatting a port number\<close>

text \<open>
  \<open>fmt.Sprintf("port-%d", candidate.Port)\<close>: the verb \<open>%d\<close> prints the signed value
  of the \<open>int32\<close> in decimal, with a leading minus sign when it is negative and no
  leading zeros.
\<close>

definition digit_char :: "nat \<Rightarrow> char" where
  "digit_char d = ''0123456789'' ! d"

fun decimal_nat :: "nat \<Rightarrow> string" where
  "decimal_nat n =
     (if n < 10 then [digit_char n] else decimal_nat (n div 10) @ [digit_char (n mod 10)])"

declare decimal_nat.simps [simp del]

definition format_d :: "int \<Rightarrow> string" where
  "format_d i = (if i < 0 then CHR ''-'' # decimal_nat (nat (- i)) else decimal_nat (nat i))"

definition fallbackName :: "int32 \<Rightarrow> string" where
  "fallbackName p = ''port-'' @ format_d (sint p)"

section \<open>The port resolver of \<open>service.go\<close>\<close>

text \<open>Reading a Go \<open>map[K]bool\<close> at a key it does not hold gives \<open>false\<close>.\<close>

definition lookupBool :: "('k \<rightharpoonup> bool) \<Rightarrow> 'k \<Rightarrow> bool" where
  "lookupBool m k = (case m k of None \<Rightarrow> False | Some b \<Rightarrow> b)"

text \<open>The loop of \<open>extractPortNumbersAndNames\<close>, with the two maps it fills.\<close>

fun extractLoop ::
  "ServicePort list \<Rightarrow> (int32 \<rightharpoonup> bool) \<times> (string \<rightharpoonup> bool) \<Rightarrow> (int32 \<rightharpoonup> bool) \<times> (string \<rightharpoonup> bool)"
where
  "extractLoop [] acc = acc"
| "extractLoop (port # ports) (numbers, names) =
     extractLoop ports (numbers(sp_Port port \<mapsto> True), names(sp_Name port \<mapsto> True))"

definition extractPortNumbersAndNames ::
  "ServicePort list \<Rightarrow> (int32 \<rightharpoonup> bool) \<times> (string \<rightharpoonup> bool)"
where
  "extractPortNumbersAndNames ports = extractLoop ports (Map.empty, Map.empty)"

text \<open>\<open>filterPort\<close>: \<open>None\<close> is the \<open>nil\<close> pointer of the source.\<close>

definition filterPort ::
  "ServicePort \<Rightarrow> (int32 \<rightharpoonup> bool) \<Rightarrow> (string \<rightharpoonup> bool) \<Rightarrow> ServicePort option"
where
  "filterPort candidate portNumbers portNames =
     (if lookupBool portNumbers (sp_Port candidate) then None
      else if lookupBool portNames (sp_Name candidate) then
        (let fallback = fallbackName (sp_Port candidate) in
         if lookupBool portNames fallback then None
         else Some (candidate\<lparr>sp_Name := fallback\<rparr>))
      else Some candidate)"

text \<open>
  The \<open>for _, inferred := range ports\<close> loop of \<open>Service\<close>; the accumulator is
  \<open>resultingInferredPorts\<close>.
\<close>

fun inferredLoop ::
  "(int32 \<rightharpoonup> bool) \<Rightarrow> (string \<rightharpoonup> bool) \<Rightarrow> ServicePort list \<Rightarrow> ServicePort list \<Rightarrow> ServicePort list"
where
  "inferredLoop portNumbers portNames [] resulting = resulting"
| "inferredLoop portNumbers portNames (inferred # rest) resulting =
     (case filterPort inferred portNumbers portNames of
        None \<Rightarrow> inferredLoop portNumbers portNames rest resulting
      | Some filtered \<Rightarrow> inferredLoop portNumbers portNames rest (resulting @ [filtered]))"

text \<open>
  Lines 86 to 105 of \<open>Service\<close>: the value of \<open>ports\<close> after the \<open>if\<close>. The first
  argument is \<open>constants.CloudwatchAgentPorts\<close> (the inferred ports), the second
  \<open>params.OtelCol.Spec.Ports\<close> (the declared ports).
\<close>

definition mergedPorts :: "ServicePort list \<Rightarrow> ServicePort list \<Rightarrow> ServicePort list" where
  "mergedPorts inferredPorts declared =
     (if length declared > 0 then
        (let (portNumbers, portNames) = extractPortNumbersAndNames declared
         in declared @ inferredLoop portNumbers portNames inferredPorts [])
      else inferredPorts)"

section \<open>The three service builders\<close>

definition Service :: "'cfg collaborators \<Rightarrow> Params \<Rightarrow> error + corev1_Service option" where
  "Service ext params =
     (let otelcol = OtelCol params;
          name = naming_Service ext (om_Name (cr_ObjectMeta otelcol));
          labels = manifestutils_Labels ext (cr_ObjectMeta otelcol) name
                     (spec_Image (cr_Spec otelcol)) (ComponentAmazonCloudWatchAgent ext) [];
          ports = mergedPorts (constants_CloudwatchAgentPorts ext) (spec_Ports (cr_Spec otelcol))
      in if length ports = 0 then Inr None
         else
           (let trafficPolicy =
                  (if spec_Mode (cr_Spec otelcol) = v1alpha1_ModeDaemonSet ext
                   then ServiceInternalTrafficPolicyLocal
                   else ServiceInternalTrafficPolicyCluster)
            in Inr (Some
              \<lparr>svc_ObjectMeta =
                 \<lparr>om_Name = naming_Service ext (om_Name (cr_ObjectMeta otelcol)),
                  om_Namespace = om_Namespace (cr_ObjectMeta otelcol),
                  om_Labels = labels,
                  om_Annotations = om_Annotations (cr_ObjectMeta otelcol)\<rparr>,
               svc_Spec =
                 \<lparr>ss_InternalTrafficPolicy = Some trafficPolicy,
                  ss_Selector = manifestutils_SelectorLabels ext (cr_ObjectMeta otelcol)
                                  (ComponentAmazonCloudWatchAgent ext),
                  ss_ClusterIP = [],
                  ss_Ports = ports\<rparr>\<rparr>)))"

definition headlessLabel :: string where
  "headlessLabel = ''operator.opentelemetry.io/collector-headless-service''"

definition headlessExists :: string where
  "headlessExists = ''Exists''"

definition servingCertKey :: string where
  "servingCertKey = ''service.beta.openshift.io/serving-cert-secret-name''"

text \<open>
  \<open>HeadlessService\<close>. The new annotation map starts as the single serving-certificate
  entry; the loop over \<open>h.Annotations\<close> then stores every entry of the base service's map
  into it, so it is the base map laid over the one entry (\<open>++\<close> takes the right map where
  both have a key). \<open>h.Labels\<close> is the map that \<open>manifestutils.Labels\<close> returned to
  \<open>Service\<close>; it is taken to be a map that can be written to, as a Go map made by a helper
  is.
\<close>

definition HeadlessService :: "'cfg collaborators \<Rightarrow> Params \<Rightarrow> error + corev1_Service option" where
  "HeadlessService ext params =
     (case Service ext params of
        Inl err \<Rightarrow> Inl err
      | Inr None \<Rightarrow> Inr None
      | Inr (Some h) \<Rightarrow>
          (let hName = naming_HeadlessService ext (om_Name (cr_ObjectMeta (OtelCol params)));
               hLabels = (om_Labels (svc_ObjectMeta h))(headlessLabel \<mapsto> headlessExists);
               annotations = [servingCertKey \<mapsto> hName @ ''-tls''] ++ om_Annotations (svc_ObjectMeta h)
           in Inr (Some
             (h\<lparr>svc_ObjectMeta :=
                  (svc_ObjectMeta h)\<lparr>om_Name := hName, om_Labels := hLabels,
                                      om_Annotations := annotations\<rparr>,
                svc_Spec := (svc_Spec h)\<lparr>ss_ClusterIP := ''None''\<rparr>\<rparr>))))"

text \<open>
  \<open>MonitoringService\<close>. The fields of the one port that the composite literal does not
  set have Go's zero values; so has \<open>InternalTrafficPolicy\<close> (a \<open>nil\<close> pointer).
\<close>

definition MonitoringService :: "'cfg collaborators \<Rightarrow> Params \<Rightarrow> error + corev1_Service option" where
  "MonitoringService ext params =
     (let otelcol = OtelCol params;
          name = naming_MonitoringService ext (om_Name (cr_ObjectMeta otelcol));
          labels = manifestutils_Labels ext (cr_ObjectMeta otelcol) name
                     (spec_Image (cr_Spec otelcol)) (ComponentAmazonCloudWatchAgent ext) []
      in case adapters_ConfigFromString ext (spec_Config (cr_Spec otelcol)) of
           Inl err \<Rightarrow> Inl err
         | Inr c \<Rightarrow>
             (case adapters_ConfigToMetricsPort ext c of
                Inl err \<Rightarrow> Inl err
              | Inr metricsPort \<Rightarrow>
                  Inr (Some
                    \<lparr>svc_ObjectMeta =
                       \<lparr>om_Name = name,
                        om_Namespace = om_Namespace (cr_ObjectMeta otelcol),
                        om_Labels = labels,
                        om_Annotations = om_Annotations (cr_ObjectMeta otelcol)\<rparr>,
                     svc_Spec =
                       \<lparr>ss_InternalTrafficPolicy = None,
                        ss_Selector = manifestutils_SelectorLabels ext (cr_ObjectMeta otelcol)
                                        (ComponentAmazonCloudWatchAgent ext),
                        ss_ClusterIP = [],
                        ss_Ports =
                          [\<lparr>sp_Name = ''monitoring'', sp_Protocol = [], sp_AppProtocol = None,
                            sp_Port = metricsPort, sp_TargetPort = IntVal 0,
                            sp_NodePort = 0\<rparr>]\<rparr>\<rparr>)))"

section \<open>The default instrumentation\<close>

record EnvVar =
  ev_Name :: string
  ev_Value :: string

datatype Propagator = TraceContext | Baggage | B3 | XRay

record Java =
  java_Image :: string
  java_Env :: "EnvVar list"

record Python =
  python_Image :: string
  python_Env :: "EnvVar list"

record InstrumentationSpec =
  is_Propagators :: "Propagator list"
  is_Java :: Java
  is_Python :: Python

record Instrumentation =
  in_APIVersion :: string
  in_Kind :: string
  in_Name :: string
  in_Namespace :: string
  in_Spec :: InstrumentationSpec

definition defaultAPIVersion :: string where
  "defaultAPIVersion = ''cloudwatch.aws.amazon.com/v1alpha1''"

definition defaultInstrumenation :: string where
  "defaultInstrumenation = ''java-instrumentation''"

definition defaultNamespace :: string where
  "defaultNamespace = ''default''"

definition defaultKind :: string where
  "defaultKind = ''Instrumentation''"

definition otelSampleEnabled :: EnvVar where
  "otelSampleEnabled = \<lparr>ev_Name = ''OTEL_SMP_ENABLED'', ev_Value = ''true''\<rparr>"

definition otelTracesSamplerArg :: EnvVar where
  "otelTracesSamplerArg =
     \<lparr>ev_Name = ''OTEL_TRACES_SAMPLER_ARG'',
      ev_Value = ''endpoint=http://cloudwatch-agent.amazon-cloudwatch:2000''\<rparr>"

definition otelTracesSampler :: EnvVar where
  "otelTracesSampler = \<lparr>ev_Name = ''OTEL_TRACES_SAMPLER'', ev_Value = ''xray''\<rparr>"

definition otelExporterOtlpProtocol :: EnvVar where
  "otelExporterOtlpProtocol =
     \<lparr>ev_Name = ''OTEL_EXPORTER_OTLP_PROTOCOL'', ev_Value = ''http/protobuf''\<rparr>"

definition otelExporterTracesEndpoint :: EnvVar where
  "otelExporterTracesEndpoint =
     \<lparr>ev_Name = ''OTEL_EXPORTER_OTLP_TRACES_ENDPOINT'',
      ev_Value = ''http://cloudwatch-agent.amazon-cloudwatch:4316/v1/traces''\<rparr>"

definition otelExporterSmpEndpoint :: EnvVar where
  "otelExporterSmpEndpoint =
     \<lparr>ev_Name = ''OTEL_AWS_SMP_EXPORTER_ENDPOINT'',
      ev_Value = ''http://cloudwatch-agent.amazon-cloudwatch:4315''\<rparr>"

definition otelExporterMetric :: EnvVar where
  "otelExporterMetric = \<lparr>ev_Name = ''OTEL_METRICS_EXPORTER'', ev_Value = ''none''\<rparr>"

definition otelPythonDistro :: EnvVar where
  "otelPythonDistro = \<lparr>ev_Name = ''OTEL_PYTHON_DISTRO'', ev_Value = ''aws_distro''\<rparr>"

definition otelPythonConfigurator :: EnvVar where
  "otelPythonConfigurator =
     \<lparr>ev_Name = ''OTEL_PYTHON_CONFIGURATOR'', ev_Value = ''aws_configurator''\<rparr>"

text \<open>
  \<open>getDefaultInstrumentation\<close>. The process environment that \<open>os.LookupEnv\<close> reads is
  the argument: a variable that is not set is \<open>None\<close>.
\<close>

definition getDefaultInstrumentation :: "(string \<rightharpoonup> string) \<Rightarrow> error + Instrumentation" where
  "getDefaultInstrumentation env =
     (case env ''AUTO_INSTRUMENTATION_JAVA'' of
        None \<Rightarrow> Inl (Error ''unable to determine java instrumentation image'')
      | Some javaInstrumentationImage \<Rightarrow>
          (case env ''AUTO_INSTRUMENTATION_PYTHON'' of
             None \<Rightarrow> Inl (Error ''unable to determine python instrumentation image'')
           | Some pythonInstrumentationImage \<Rightarrow>
               Inr \<lparr>in_APIVersion = defaultAPIVersion,
                    in_Kind = defaultKind,
                    in_Name = defaultInstrumenation,
                    in_Namespace = defaultNamespace,
                    in_Spec =
                      \<lparr>is_Propagators = [TraceContext, Baggage, B3, XRay],
                       is_Java =
                         \<lparr>java_Image = javaInstrumentationImage,
                          java_Env =
                            [otelSampleEnabled, otelTracesSamplerArg, otelTracesSampler,
                             otelExporterOtlpProtocol, otelExporterTracesEndpoint,
                             otelExporterSmpEndpoint, otelExporterMetric]\<rparr>,
                       is_Python =
                         \<lparr>python_Image = pythonInstrumentationImage,
                          python_Env =
                            [otelSampleEnabled, otelTracesSamplerArg,
                             otelExporterOtlpProtocol, otelExporterTracesEndpoint,
                             otelExporterSmpEndpoint, otelExporterMetric,
                             otelPythonDistro, otelPythonConfigurator]\<rparr>\<rparr>\<rparr>))"

text \<open>
  The environment-entry layout as the specification words it: seven fixed entries in this
  order for both runtimes, and two distribution and configurator entries after them for one
  runtime only.
\<close>

definition spec_fixedEntries :: "EnvVar list" where
  "spec_fixedEntries =
     [otelSampleEnabled, otelTracesSamplerArg, otelTracesSampler, otelExporterOtlpProtocol,
      otelExporterTracesEndpoint, otelExporterSmpEndpoint, otelExporterMetric]"

definition spec_distroEntries :: "EnvVar list" where
  "spec_distroEntries = [otelPythonDistro, otelPythonConfigurator]"

definition spec_envLayout :: "Instrumentation \<Rightarrow> bool" where
  "spec_envLayout d \<longleftrightarrow>
     (java_Env (is_Java (in_Spec d)) = spec_fixedEntries \<and>
      python_Env (is_Python (in_Spec d)) = spec_fixedEntries @ spec_distroEntries) \<or>
     (java_Env (is_Java (in_Spec d)) = spec_fixedEntries @ spec_distroEntries \<and>
      python_Env (is_Python (in_Spec d)) = spec_fixedEntries)"

section \<open>Auxiliary definitions for the statements\<close>

text \<open>Reading a decimal numeral back; used to show that \<open>%d\<close> never prints two numbers alike.\<close>

definition decimal_value :: "string \<Rightarrow> nat" where
  "decimal_value s = foldl (\<lambda>a c. 10 * a + (of_char c - 48)) 0 s"

text \<open>
  The decimal numeral of an integer, as a property of the text: a minus sign when the number
  is negative, then digits only, at least one, with no leading zero unless the numeral is the
  one digit \<open>0\<close>, that read back to the magnitude of the number.
\<close>

definition isDigits :: "string \<Rightarrow> bool" where
  "isDigits ds \<longleftrightarrow>
     ds \<noteq> [] \<and> set ds \<subseteq> set ''0123456789'' \<and> (length ds = 1 \<or> hd ds \<noteq> CHR ''0'')"

definition isDecimalOf :: "string \<Rightarrow> int \<Rightarrow> bool" where
  "isDecimalOf s i \<longleftrightarrow>
     (if i < 0 then s \<noteq> [] \<and> hd s = CHR ''-'' \<and> isDigits (tl s) \<and> int (decimal_value (tl s)) = - i
      else isDigits s \<and> int (decimal_value s) = i)"

text \<open>
  \<open>filterPort\<close> as \<open>Service\<close> calls it: with the two maps that
  \<open>extractPortNumbersAndNames\<close> builds from the declared ports.
\<close>

definition declaredFilter :: "ServicePort list \<Rightarrow> ServicePort \<Rightarrow> ServicePort option" where
  "declaredFilter declared candidate =
     filterPort candidate (fst (extractPortNumbersAndNames declared))
       (snd (extractPortNumbersAndNames declared))"

abbreviation declaredPorts :: "Params \<Rightarrow> ServicePort list" where
  "declaredPorts params \<equiv> spec_Ports (cr_Spec (OtelCol params))"

abbreviation workloadMeta :: "Params \<Rightarrow> ObjectMeta" where
  "workloadMeta params \<equiv> cr_ObjectMeta (OtelCol params)"

text \<open>No two entries share a numeric port, and no two share a name.\<close>

definition noDuplicatePorts :: "ServicePort list \<Rightarrow> bool" where
  "noDuplicatePorts ports \<longleftrightarrow> distinct (map sp_Port ports) \<and> distinct (map sp_Name ports)"

text \<open>
  What a builder's result holds, for stating results on concrete inputs: the fields of the
  service when one was built, and a default when none was.
\<close>

definition portsOf :: "error + corev1_Service option \<Rightarrow> ServicePort list" where
  "portsOf r = (case r of Inr (Some s) \<Rightarrow> ss_Ports (svc_Spec s) | _ \<Rightarrow> [])"

definition annotationsOf :: "error + corev1_Service option \<Rightarrow> (string \<rightharpoonup> string)" where
  "annotationsOf r = (case r of Inr (Some s) \<Rightarrow> om_Annotations (svc_ObjectMeta s) | _ \<Rightarrow> Map.empty)"

definition nameOf :: "error + corev1_Service option \<Rightarrow> string" where
  "nameOf r = (case r of Inr (Some s) \<Rightarrow> om_Name (svc_ObjectMeta s) | _ \<Rightarrow> [])"

definition isBuilt :: "error + corev1_Service option \<Rightarrow> bool" where
  "isBuilt r = (case r of Inr (Some s) \<Rightarrow> True | _ \<Rightarrow> False)"

definition policyOf :: "error + corev1_Service option \<Rightarrow> ServiceInternalTrafficPolicy option" where
  "policyOf r = (case r of Inr (Some s) \<Rightarrow> ss_InternalTrafficPolicy (svc_Spec s) | _ \<Rightarrow> None)"

definition errorOf :: "error + corev1_Service option \<Rightarrow> error option" where
  "errorOf r = (case r of Inl e \<Rightarrow> Some e | Inr _ \<Rightarrow> None)"

text \<open>A port with only its name and number set; every other field has Go's zero value.\<close>

definition mkPort :: "string \<Rightarrow> int32 \<Rightarrow> ServicePort" where
  "mkPort name number =
     \<lparr>sp_Name = name, sp_Protocol = [], sp_AppProtocol = None, sp_Port = number,
      sp_TargetPort = IntVal 0, sp_NodePort = 0\<rparr>"

text \<open>
  One concrete choice of the collaborators, of a workload and of an environment, on which the
  builders are evaluated below. The configuration adapter of the sample rejects the empty
  text and finds no metrics port in the text \<open>no-port\<close>.
\<close>

definition sampleExt :: "ServicePort list \<Rightarrow> string collaborators" where
  "sampleExt inferredPorts =
     \<lparr>naming_Service = (\<lambda>n. n),
      naming_HeadlessService = (\<lambda>n. n @ ''-headless''),
      naming_MonitoringService = (\<lambda>n. n @ ''-monitoring''),
      manifestutils_Labels = (\<lambda>meta name image component filter. [''app.kubernetes.io/name'' \<mapsto> name]),
      manifestutils_SelectorLabels = (\<lambda>meta component. [''app.kubernetes.io/component'' \<mapsto> component]),
      adapters_ConfigFromString = (\<lambda>s. if s = [] then Inl (Error ''cannot parse'') else Inr s),
      adapters_ConfigToMetricsPort =
        (\<lambda>c. if c = ''no-port'' then Inl (Error ''no metrics port'') else Inr 8888),
      constants_CloudwatchAgentPorts = inferredPorts,
      v1alpha1_ModeDaemonSet = ''daemonset'',
      ComponentAmazonCloudWatchAgent = ''amazon-cloudwatch-agent''\<rparr>"

definition sampleParams :: "Mode \<Rightarrow> ServicePort list \<Rightarrow> (string \<rightharpoonup> string) \<Rightarrow> string \<Rightarrow> Params" where
  "sampleParams mode declared annotations config =
     \<lparr>OtelCol =
        \<lparr>cr_ObjectMeta =
           \<lparr>om_Name = ''agent'', om_Namespace = ''amazon-cloudwatch'', om_Labels = Map.empty,
            om_Annotations = annotations\<rparr>,
         cr_Spec =
           \<lparr>spec_Mode = mode, spec_Ports = declared, spec_Config = config,
            spec_Image = ''agent:latest''\<rparr>\<rparr>\<rparr>"

definition env_both :: "string \<rightharpoonup> string" where
  "env_both =
     [''AUTO_INSTRUMENTATION_JAVA'' \<mapsto> ''java:1'', ''AUTO_INSTRUMENTATION_PYTHON'' \<mapsto> ''python:1'']"

lemmas sample_defs = sampleExt_def sampleParams_def mkPort_def Service_def mergedPorts_def
  extractPortNumbersAndNames_def filterPort_def lookupBool_def fallbackName_def format_d_def
  decimal_nat.simps digit_char_def

section \<open>Properties of the port formatting\<close>

lemma decimal_value_snoc: "decimal_value (s @ [c]) = 10 * decimal_value s + (of_char c - 48)"
  by (simp add: decimal_value_def)

lemma below_ten: "d < 10 \<Longrightarrow> d \<in> {0, 1, 2, 3, 4, 5, 6, 7, 8, 9::nat}"
  by auto

lemma of_char_digit_char: "d < 10 \<Longrightarrow> of_char (digit_char d) = 48 + d"
  by (drule below_ten) (auto simp: digit_char_def)

lemma decimal_value_decimal_nat: "decimal_value (decimal_nat n) = n"
proof (induction n rule: decimal_nat.induct)
  case (1 n)
  show ?case
  proof (cases "n < 10")
    case True
    then show ?thesis
      by (subst decimal_nat.simps) (simp add: decimal_value_def of_char_digit_char)
  next
    case False
    with 1 have "decimal_value (decimal_nat (n div 10)) = n div 10" by simp
    with False show ?thesis
      by (subst decimal_nat.simps) (simp add: decimal_value_snoc of_char_digit_char)
  qed
qed

lemma digit_char_not_minus: "d < 10 \<Longrightarrow> digit_char d \<noteq> CHR ''-''"
  by (drule below_ten) (auto simp: digit_char_def)

lemma hd_decimal_nat_not_minus: "hd (decimal_nat n) \<noteq> CHR ''-'' \<and> decimal_nat n \<noteq> []"
proof (induction n rule: decimal_nat.induct)
  case (1 n)
  show ?case
  proof (cases "n < 10")
    case True
    then show ?thesis
      by (subst (1 2) decimal_nat.simps) (simp add: digit_char_not_minus)
  next
    case False
    with 1 show ?thesis
      by (subst (1 2) decimal_nat.simps) simp
  qed
qed

lemma decimal_nat_inj: "decimal_nat m = decimal_nat n \<Longrightarrow> m = n"
  by (metis decimal_value_decimal_nat)

lemma format_d_inj: "format_d i = format_d j \<Longrightarrow> i = j"
proof -
  assume eq: "format_d i = format_d j"
  have neg: "\<And>a b. CHR ''-'' # decimal_nat a \<noteq> decimal_nat b"
    using hd_decimal_nat_not_minus by (metis list.sel(1))
  show "i = j"
  proof (cases "i < 0")
    case True
    show ?thesis
    proof (cases "j < 0")
      case True
      with \<open>i < 0\<close> eq have "nat (- i) = nat (- j)"
        by (simp add: format_d_def decimal_nat_inj)
      with True \<open>i < 0\<close> show ?thesis by simp
    next
      case False
      with True eq neg show ?thesis by (simp add: format_d_def)
    qed
  next
    case False
    show ?thesis
    proof (cases "j < 0")
      case True
      with False eq neg [of "nat (- j)" "nat i"] show ?thesis by (simp add: format_d_def)
    next
      case False
      with \<open>\<not> i < 0\<close> eq have "nat i = nat j"
        by (simp add: format_d_def decimal_nat_inj)
      with False \<open>\<not> i < 0\<close> show ?thesis by simp
    qed
  qed
qed

lemma fallbackName_inj: "fallbackName p = fallbackName q \<Longrightarrow> p = q"
  by (auto simp: fallbackName_def dest!: format_d_inj signed_word_eqI)

lemma digit_char_in_digits: "d < 10 \<Longrightarrow> digit_char d \<in> set ''0123456789''"
  by (drule below_ten) (auto simp: digit_char_def)

lemma digit_char_zero: "d < 10 \<Longrightarrow> digit_char d = CHR ''0'' \<Longrightarrow> d = 0"
  by (drule below_ten) (auto simp: digit_char_def)

lemma set_decimal_nat: "set (decimal_nat n) \<subseteq> set ''0123456789''"
proof (induction n rule: decimal_nat.induct)
  case (1 n)
  show ?case
  proof (cases "n < 10")
    case True
    then show ?thesis
      using digit_char_in_digits [of n] by (subst decimal_nat.simps) simp
  next
    case False
    with 1 have "set (decimal_nat (n div 10)) \<subseteq> set ''0123456789''" by simp
    moreover have "digit_char (n mod 10) \<in> set ''0123456789''"
      by (rule digit_char_in_digits) simp
    ultimately show ?thesis using False
      by (subst decimal_nat.simps) simp
  qed
qed

lemma decimal_nat_no_leading_zero:
  "0 < n \<Longrightarrow> hd (decimal_nat n) \<noteq> CHR ''0''"
proof (induction n rule: decimal_nat.induct)
  case (1 n)
  show ?case
  proof (cases "n < 10")
    case True
    with "1.prems" show ?thesis
      using digit_char_zero [of n] by (subst decimal_nat.simps) auto
  next
    case False
    then have pos: "0 < n div 10" by simp
    with 1 False have "hd (decimal_nat (n div 10)) \<noteq> CHR ''0''" by simp
    moreover have "decimal_nat (n div 10) \<noteq> []"
      using hd_decimal_nat_not_minus by simp
    ultimately show ?thesis using False
      by (subst decimal_nat.simps) simp
  qed
qed

lemma decimal_nat_zero: "decimal_nat 0 = ''0''"
  by (subst decimal_nat.simps) (simp add: digit_char_def)

lemma isDigits_decimal_nat: "isDigits (decimal_nat n)"
proof (cases "n = 0")
  case True
  then show ?thesis by (simp add: isDigits_def decimal_nat_zero)
next
  case False
  then have "hd (decimal_nat n) \<noteq> CHR ''0''" by (simp add: decimal_nat_no_leading_zero)
  then show ?thesis
    using set_decimal_nat [of n] hd_decimal_nat_not_minus [of n] by (simp add: isDigits_def)
qed

lemma isDecimalOf_format_d: "isDecimalOf (format_d i) i"
  by (simp add: isDecimalOf_def format_d_def isDigits_decimal_nat decimal_value_decimal_nat)

section \<open>Properties of the resolver\<close>

lemma extractLoop_numbers:
  "lookupBool (fst (extractLoop ports (numbers, names))) k \<longleftrightarrow>
     k \<in> sp_Port ` set ports \<or> lookupBool numbers k"
  by (induction ports arbitrary: numbers names) (auto simp: lookupBool_def)

lemma extractLoop_names:
  "lookupBool (snd (extractLoop ports (numbers, names))) k \<longleftrightarrow>
     k \<in> sp_Name ` set ports \<or> lookupBool names k"
  by (induction ports arbitrary: numbers names) (auto simp: lookupBool_def)

lemma lookupBool_empty: "lookupBool Map.empty k = False"
  by (simp add: lookupBool_def)

lemma extract_numbers:
  "lookupBool (fst (extractPortNumbersAndNames ports)) k \<longleftrightarrow> k \<in> sp_Port ` set ports"
  by (simp add: extractPortNumbersAndNames_def extractLoop_numbers lookupBool_empty)

lemma extract_names:
  "lookupBool (snd (extractPortNumbersAndNames ports)) k \<longleftrightarrow> k \<in> sp_Name ` set ports"
  by (simp add: extractPortNumbersAndNames_def extractLoop_names lookupBool_empty)

lemma inferredLoop_map_filter:
  "inferredLoop portNumbers portNames ports resulting =
     resulting @ List.map_filter (\<lambda>p. filterPort p portNumbers portNames) ports"
  by (induction ports arbitrary: resulting) (auto simp: List.map_filter_simps split: option.splits)

lemma declaredFilter_Nil: "declaredFilter [] p = Some p"
  by (simp add: declaredFilter_def filterPort_def extract_numbers extract_names)

lemma map_filter_Some: "List.map_filter Some xs = xs"
  by (induction xs) (simp_all add: List.map_filter_simps)

lemma mergedPorts_eq:
  "mergedPorts inferredPorts declared =
     declared @ List.map_filter (declaredFilter declared) inferredPorts"
proof (cases declared)
  case Nil
  have "declaredFilter [] = Some" by (rule ext) (rule declaredFilter_Nil)
  with Nil show ?thesis by (simp add: mergedPorts_def map_filter_Some)
next
  case (Cons d ds)
  then show ?thesis
    by (simp add: mergedPorts_def inferredLoop_map_filter declaredFilter_def [abs_def] split_beta)
qed

lemma declaredFilter_cases:
  "declaredFilter declared c =
     (if sp_Port c \<in> sp_Port ` set declared then None
      else if sp_Name c \<in> sp_Name ` set declared then
        (if fallbackName (sp_Port c) \<in> sp_Name ` set declared then None
         else Some (c\<lparr>sp_Name := fallbackName (sp_Port c)\<rparr>))
      else Some c)"
  by (simp add: declaredFilter_def filterPort_def extract_numbers extract_names Let_def)

lemma Service_ports: "Service ext params = Inr (Some s) \<Longrightarrow>
  ss_Ports (svc_Spec s) = mergedPorts (constants_CloudwatchAgentPorts ext) (declaredPorts params)"
  by (auto simp: Service_def Let_def split: if_splits)

lemma distinct_map_map_filter:
  assumes "distinct xs"
    and "\<And>x y x' y'. x \<in> set xs \<Longrightarrow> y \<in> set xs \<Longrightarrow> f x = Some x' \<Longrightarrow> f y = Some y' \<Longrightarrow>
           g x' = g y' \<Longrightarrow> x = y"
  shows "distinct (map g (List.map_filter f xs))"
  using assms
proof (induction xs)
  case Nil
  then show ?case by (simp add: List.map_filter_simps)
next
  case (Cons a xs)
  have IH: "distinct (map g (List.map_filter f xs))"
    using Cons.IH Cons.prems by (metis distinct.simps(2) list.set_intros(2))
  show ?case
  proof (cases "f a")
    case None
    with IH show ?thesis by (simp add: List.map_filter_simps)
  next
    case (Some a')
    have "g a' \<notin> g ` set (List.map_filter f xs)"
    proof
      assume "g a' \<in> g ` set (List.map_filter f xs)"
      then obtain y y' where y: "y \<in> set xs" "f y = Some y'" "g a' = g y'"
        by (auto simp: List.map_filter_def)
      with Cons.prems(2) [of a y a' y'] Some have "a = y" by simp
      with y(1) Cons.prems(1) show False by simp
    qed
    with IH Some show ?thesis by (simp add: List.map_filter_simps)
  qed
qed

lemma set_map_filter_declared:
  "q' \<in> set (List.map_filter (declaredFilter D) I) \<longleftrightarrow> (\<exists>q \<in> set I. declaredFilter D q = Some q')"
  by (induction I) (auto simp: List.map_filter_simps split: option.splits)

lemma declaredFilter_port: "declaredFilter D q = Some q' \<Longrightarrow> sp_Port q' = sp_Port q \<and> sp_Port q \<notin> sp_Port ` set D"
  by (auto simp: declaredFilter_cases split: if_splits)

lemma declaredFilter_name:
  "declaredFilter D q = Some q' \<Longrightarrow>
     sp_Name q' \<notin> sp_Name ` set D \<and>
     (q' = q \<or> (q' = q\<lparr>sp_Name := fallbackName (sp_Port q)\<rparr> \<and> sp_Name q \<in> sp_Name ` set D))"
  by (auto simp: declaredFilter_cases split: if_splits)

lemma mergedPorts_noDuplicate:
  assumes D: "noDuplicatePorts D" and I: "noDuplicatePorts I"
    and fresh: "\<forall>p\<in>set I. \<forall>q\<in>set I. p \<noteq> q \<longrightarrow> sp_Name q \<noteq> fallbackName (sp_Port p)"
  shows "noDuplicatePorts (mergedPorts I D)"
proof -
  let ?S = "List.map_filter (declaredFilter D) I"
  have dI: "distinct I" using I by (simp add: noDuplicatePorts_def distinct_map)
  have inj_port: "\<And>x y. x \<in> set I \<Longrightarrow> y \<in> set I \<Longrightarrow> sp_Port x = sp_Port y \<Longrightarrow> x = y"
    using I by (auto simp: noDuplicatePorts_def distinct_map dest: inj_onD)
  have inj_name: "\<And>x y. x \<in> set I \<Longrightarrow> y \<in> set I \<Longrightarrow> sp_Name x = sp_Name y \<Longrightarrow> x = y"
    using I by (auto simp: noDuplicatePorts_def distinct_map dest: inj_onD)
  have ports: "distinct (map sp_Port ?S)"
  proof (rule distinct_map_map_filter [OF dI])
    fix x y x' y'
    assume "x \<in> set I" "y \<in> set I" "declaredFilter D x = Some x'" "declaredFilter D y = Some y'"
      "sp_Port x' = sp_Port y'"
    then show "x = y" using inj_port by (auto dest!: declaredFilter_port)
  qed
  have names: "distinct (map sp_Name ?S)"
  proof (rule distinct_map_map_filter [OF dI])
    fix x y x' y'
    assume x: "x \<in> set I" and y: "y \<in> set I"
      and fx: "declaredFilter D x = Some x'" and fy: "declaredFilter D y = Some y'"
      and eq: "sp_Name x' = sp_Name y'"
    show "x = y"
    proof (rule ccontr)
      assume ne: "x \<noteq> y"
      from declaredFilter_name [OF fx] declaredFilter_name [OF fy]
      consider "x' = x" "y' = y"
        | "x' = x" "y' = y\<lparr>sp_Name := fallbackName (sp_Port y)\<rparr>"
        | "x' = x\<lparr>sp_Name := fallbackName (sp_Port x)\<rparr>" "y' = y"
        | "x' = x\<lparr>sp_Name := fallbackName (sp_Port x)\<rparr>" "y' = y\<lparr>sp_Name := fallbackName (sp_Port y)\<rparr>"
        by blast
      then show False
      proof cases
        case 1
        with eq inj_name [OF x y] ne show False by simp
      next
        case 2
        with eq have "sp_Name x = fallbackName (sp_Port y)" by simp
        with fresh x y ne show False by (metis)
      next
        case 3
        with eq have "sp_Name y = fallbackName (sp_Port x)" by simp
        with fresh x y ne show False by (metis)
      next
        case 4
        with eq have "sp_Port x = sp_Port y" by (simp add: fallbackName_inj)
        with inj_port [OF x y] ne show False by simp
      qed
    qed
  qed
  have "\<And>q' d. q' \<in> set ?S \<Longrightarrow> d \<in> set D \<Longrightarrow> sp_Port d = sp_Port q' \<Longrightarrow> False"
    unfolding set_map_filter_declared using declaredFilter_port by (metis imageI)
  then have disj_ports: "sp_Port ` set D \<inter> sp_Port ` set ?S = {}"
    by (auto simp only: disjoint_iff image_iff)
  have "\<And>q' d. q' \<in> set ?S \<Longrightarrow> d \<in> set D \<Longrightarrow> sp_Name d = sp_Name q' \<Longrightarrow> False"
    unfolding set_map_filter_declared using declaredFilter_name by (metis imageI)
  then have disj_names: "sp_Name ` set D \<inter> sp_Name ` set ?S = {}"
    by (auto simp only: disjoint_iff image_iff)
  from D ports names disj_ports disj_names show ?thesis
    by (simp add: mergedPorts_eq noDuplicatePorts_def)
qed

lemma HeadlessService_annotations:
  assumes "Service ext params = Inr (Some b)"
  shows "\<exists>h. HeadlessService ext params = Inr (Some h) \<and>
     om_Annotations (svc_ObjectMeta h) =
       [servingCertKey \<mapsto> om_Name (svc_ObjectMeta h) @ ''-tls''] ++ om_Annotations (workloadMeta params)"
proof -
  from assms have "om_Annotations (svc_ObjectMeta b) = om_Annotations (workloadMeta params)"
    by (auto simp: Service_def Let_def split: if_splits)
  with assms show ?thesis
    by (simp add: HeadlessService_def Let_def)
qed

section \<open>The claims\<close>

subsection \<open>C1: duplicates in the resolved port list\<close>

text \<open>
  Claim C1, as stated, fails: the port list of the built service can hold two entries with
  one number, or with one name. Declared ports are copied as they are, so two declared ports
  on number 80 both reach the result; with no declared port the inferred ports are copied as
  they are; and an inferred port renamed to \<open>port-4317\<close> can meet a later inferred port
  that already has this name, although neither input list repeats a number or a name.
\<close>

theorem Service_ports_duplicates_counterexample:
  "portsOf (Service (sampleExt []) (sampleParams ''deployment'' [mkPort ''a'' 80, mkPort ''b'' 80] Map.empty []))
     = [mkPort ''a'' 80, mkPort ''b'' 80] \<and>
   \<not> noDuplicatePorts [mkPort ''a'' 80, mkPort ''b'' 80] \<and>
   portsOf (Service (sampleExt [mkPort ''a'' 80, mkPort ''a'' 81]) (sampleParams ''deployment'' [] Map.empty []))
     = [mkPort ''a'' 80, mkPort ''a'' 81] \<and>
   \<not> noDuplicatePorts [mkPort ''a'' 80, mkPort ''a'' 81] \<and>
   portsOf (Service (sampleExt [mkPort ''metrics'' 4317, mkPort ''port-4317'' 4318])
     (sampleParams ''deployment'' [mkPort ''metrics'' 8888] Map.empty []))
     = [mkPort ''metrics'' 8888, mkPort ''port-4317'' 4317, mkPort ''port-4317'' 4318] \<and>
   \<not> noDuplicatePorts [mkPort ''metrics'' 8888, mkPort ''port-4317'' 4317, mkPort ''port-4317'' 4318]"
  by (simp add: sample_defs portsOf_def noDuplicatePorts_def)

text \<open>
  Claim C1, amended: when the declared ports repeat no number and no name, the inferred ports
  repeat no number and no name, and no inferred port is named like the fallback name
  \<open>port-<number>\<close> of another inferred port, then the port list of the service that the base
  builder returns has no two entries sharing a numeric port and no two sharing a name.
\<close>

theorem Service_ports_no_duplicates:
  assumes "noDuplicatePorts (declaredPorts params)"
    and "noDuplicatePorts (constants_CloudwatchAgentPorts ext)"
    and "\<forall>p\<in>set (constants_CloudwatchAgentPorts ext). \<forall>q\<in>set (constants_CloudwatchAgentPorts ext).
           p \<noteq> q \<longrightarrow> sp_Name q \<noteq> fallbackName (sp_Port p)"
  shows "\<forall>s. Service ext params = Inr (Some s) \<longrightarrow> noDuplicatePorts (ss_Ports (svc_Spec s))"
  using mergedPorts_noDuplicate [OF assms] by (simp add: Service_ports)

theorem Service_ports_no_duplicates_witness:
  "isBuilt (Service (sampleExt [mkPort ''metrics'' 4317, mkPort ''otlp'' 4318])
       (sampleParams ''deployment'' [mkPort ''metrics'' 8888] Map.empty [])) \<and>
   noDuplicatePorts (portsOf (Service (sampleExt [mkPort ''metrics'' 4317, mkPort ''otlp'' 4318])
       (sampleParams ''deployment'' [mkPort ''metrics'' 8888] Map.empty [])))"
proof -
  let ?ext = "sampleExt [mkPort ''metrics'' 4317, mkPort ''otlp'' 4318]"
  let ?params = "sampleParams ''deployment'' [mkPort ''metrics'' 8888] Map.empty []"
  have h1: "noDuplicatePorts (declaredPorts ?params)"
    by (simp add: noDuplicatePorts_def sampleParams_def)
  have h2: "noDuplicatePorts (constants_CloudwatchAgentPorts ?ext)"
    by (simp add: noDuplicatePorts_def sampleExt_def mkPort_def)
  have h3: "\<forall>p\<in>set (constants_CloudwatchAgentPorts ?ext). \<forall>q\<in>set (constants_CloudwatchAgentPorts ?ext).
           p \<noteq> q \<longrightarrow> sp_Name q \<noteq> fallbackName (sp_Port p)"
    by (simp add: sample_defs)
  have built: "isBuilt (Service ?ext ?params)"
    by (simp add: sample_defs isBuilt_def)
  with Service_ports_no_duplicates [OF h1 h2 h3] show ?thesis
    by (auto simp: isBuilt_def portsOf_def split: sum.splits option.splits)
qed

subsection \<open>C2: the environment entries of the default instrumentation\<close>

text \<open>
  Claim C2, as stated, fails: with both image references set, the Python block does not start
  with the seven fixed entries, because it has no sampler selection entry
  (\<open>OTEL_TRACES_SAMPLER\<close>); so neither of the two layouts the claim allows is the one built.
\<close>

theorem default_instrumentation_env_layout_counterexample:
  "isl (getDefaultInstrumentation env_both) = False \<and>
   \<not> spec_envLayout (projr (getDefaultInstrumentation env_both))"
  by (simp add: getDefaultInstrumentation_def env_both_def spec_envLayout_def
      spec_fixedEntries_def spec_distroEntries_def otelTracesSampler_def
      otelExporterOtlpProtocol_def otelPythonDistro_def)

text \<open>
  Claim C2, amended: when both image references are present, the builder returns a descriptor
  whose Java block carries its image and exactly the seven fixed entries in the stated order,
  and whose Python block carries its image and the same entries without the sampler selection
  entry, in the same order, followed by the distribution and the configurator entry.
\<close>

theorem default_instrumentation_env_entries:
  assumes "env ''AUTO_INSTRUMENTATION_JAVA'' = Some j" and "env ''AUTO_INSTRUMENTATION_PYTHON'' = Some p"
  shows "\<exists>d. getDefaultInstrumentation env = Inr d \<and>
     java_Image (is_Java (in_Spec d)) = j \<and>
     python_Image (is_Python (in_Spec d)) = p \<and>
     java_Env (is_Java (in_Spec d)) = spec_fixedEntries \<and>
     python_Env (is_Python (in_Spec d)) = remove1 otelTracesSampler spec_fixedEntries @ spec_distroEntries"
  using assms
  by (simp add: getDefaultInstrumentation_def spec_fixedEntries_def spec_distroEntries_def
      otelTracesSampler_def otelSampleEnabled_def otelTracesSamplerArg_def)

theorem default_instrumentation_env_entries_witness:
  "\<exists>d. getDefaultInstrumentation env_both = Inr d \<and>
     java_Image (is_Java (in_Spec d)) = ''java:1'' \<and>
     python_Image (is_Python (in_Spec d)) = ''python:1'' \<and>
     java_Env (is_Java (in_Spec d)) = spec_fixedEntries \<and>
     python_Env (is_Python (in_Spec d)) = remove1 otelTracesSampler spec_fixedEntries @ spec_distroEntries"
  using default_instrumentation_env_entries [of env_both "''java:1''" "''python:1''"]
  by (simp add: env_both_def)

subsection \<open>C3: declared ports first, surviving inferred ports after them\<close>

text \<open>
  Claim C3: the port list of the service that the base builder returns is the declared port
  list, unchanged and in its order, followed by the inferred ports that \<open>filterPort\<close> keeps
  (renamed where it renames them), in the order of the inferred list.
\<close>

theorem Service_ports_layout:
  "Service ext params = Inr (Some s) \<longrightarrow>
     ss_Ports (svc_Spec s) =
       declaredPorts params @
       List.map_filter (declaredFilter (declaredPorts params)) (constants_CloudwatchAgentPorts ext) \<and>
     take (length (declaredPorts params)) (ss_Ports (svc_Spec s)) = declaredPorts params"
  by (simp add: Service_ports mergedPorts_eq)

theorem Service_ports_layout_witness:
  "portsOf (Service (sampleExt [mkPort ''metrics'' 4317, mkPort ''otlp'' 4318, mkPort ''xray'' 2000])
       (sampleParams ''deployment'' [mkPort ''metrics'' 8888, mkPort ''tcp'' 4318] Map.empty []))
   = [mkPort ''metrics'' 8888, mkPort ''tcp'' 4318, mkPort ''port-4317'' 4317, mkPort ''xray'' 2000]"
proof -
  let ?ext = "sampleExt [mkPort ''metrics'' 4317, mkPort ''otlp'' 4318, mkPort ''xray'' 2000]"
  let ?params = "sampleParams ''deployment'' [mkPort ''metrics'' 8888, mkPort ''tcp'' 4318] Map.empty []"
  obtain s where s: "Service ?ext ?params = Inr (Some s)"
    by (simp add: Service_def mergedPorts_def sampleParams_def Let_def split_beta)
  have D: "declaredPorts ?params = [mkPort ''metrics'' 8888, mkPort ''tcp'' 4318]"
    by (simp add: sampleParams_def)
  have I: "constants_CloudwatchAgentPorts ?ext = [mkPort ''metrics'' 4317, mkPort ''otlp'' 4318, mkPort ''xray'' 2000]"
    by (simp add: sampleExt_def)
  have "ss_Ports (svc_Spec s) =
      [mkPort ''metrics'' 8888, mkPort ''tcp'' 4318] @
      List.map_filter (declaredFilter [mkPort ''metrics'' 8888, mkPort ''tcp'' 4318])
        [mkPort ''metrics'' 4317, mkPort ''otlp'' 4318, mkPort ''xray'' 2000]"
    using Service_ports_layout [of ?ext ?params s] s unfolding D I by simp
  also have "\<dots> = [mkPort ''metrics'' 8888, mkPort ''tcp'' 4318, mkPort ''port-4317'' 4317, mkPort ''xray'' 2000]"
    by (simp add: List.map_filter_simps declaredFilter_cases mkPort_def fallbackName_def format_d_def
        decimal_nat.simps digit_char_def)
  finally show ?thesis using s by (simp add: portsOf_def)
qed

subsection \<open>C4: what happens to one inferred port\<close>

text \<open>
  Claim C4: an inferred port whose number is a declared port's number is dropped; otherwise,
  when its name is a declared port's name, it is kept under the fallback name unless a
  declared port has that name too, in which case it is dropped; otherwise it is kept as it is.
  The fallback name is \<open>port-\<close> followed by the decimal numeral of the port number. The
  ports of the built service are the declared ports followed by what this decision keeps of
  each inferred port, in order. Dropping a port is no failure: the base builder never returns
  an error.
\<close>

theorem filterPort_decision:
  "declaredFilter declared c =
     (if sp_Port c \<in> sp_Port ` set declared then None
      else if sp_Name c \<in> sp_Name ` set declared then
        (if fallbackName (sp_Port c) \<in> sp_Name ` set declared then None
         else Some (c\<lparr>sp_Name := fallbackName (sp_Port c)\<rparr>))
      else Some c) \<and>
   fallbackName (sp_Port c) = ''port-'' @ format_d (sint (sp_Port c)) \<and>
   isDecimalOf (format_d (sint (sp_Port c))) (sint (sp_Port c)) \<and>
   (Service ext params = Inr (Some s) \<longrightarrow>
      ss_Ports (svc_Spec s) =
        declaredPorts params @
        List.map_filter (declaredFilter (declaredPorts params)) (constants_CloudwatchAgentPorts ext)) \<and>
   \<not> isl (Service ext params)"
proof -
  have "\<not> isl (Service ext params)"
    by (simp add: Service_def Let_def)
  then show ?thesis
    by (simp add: declaredFilter_cases isDecimalOf_format_d Service_ports mergedPorts_eq
        fallbackName_def)
qed

theorem filterPort_decision_witness:
  "fallbackName 4317 = ''port-4317'' \<and>
   fallbackName 80 = ''port-80'' \<and>
   isDecimalOf ''4317'' 4317 \<and>
   isDecimalOf ''80'' 80 \<and>
   declaredFilter [mkPort ''metrics'' 8888] (mkPort ''metrics'' 4317) = Some (mkPort ''port-4317'' 4317) \<and>
   declaredFilter [mkPort ''http'' 8080, mkPort ''port-80'' 81] (mkPort ''http'' 80) = None \<and>
   declaredFilter [mkPort ''tcp'' 4318] (mkPort ''otlp'' 4318) = None \<and>
   declaredFilter [mkPort ''metrics'' 8888] (mkPort ''xray'' 2000) = Some (mkPort ''xray'' 2000) \<and>
   portsOf (Service
       (sampleExt [mkPort ''metrics'' 4317, mkPort ''http'' 80, mkPort ''otlp'' 4318, mkPort ''xray'' 2000])
       (sampleParams ''deployment''
          [mkPort ''metrics'' 8888, mkPort ''http'' 8080, mkPort ''port-80'' 81, mkPort ''tcp'' 4318]
          Map.empty []))
     = [mkPort ''metrics'' 8888, mkPort ''http'' 8080, mkPort ''port-80'' 81, mkPort ''tcp'' 4318,
        mkPort ''port-4317'' 4317, mkPort ''xray'' 2000] \<and>
   isBuilt (Service
       (sampleExt [mkPort ''metrics'' 4317, mkPort ''http'' 80, mkPort ''otlp'' 4318, mkPort ''xray'' 2000])
       (sampleParams ''deployment''
          [mkPort ''metrics'' 8888, mkPort ''http'' 8080, mkPort ''port-80'' 81, mkPort ''tcp'' 4318]
          Map.empty []))"
proof -
  let ?I = "[mkPort ''metrics'' 4317, mkPort ''http'' 80, mkPort ''otlp'' 4318, mkPort ''xray'' 2000]"
  let ?D = "[mkPort ''metrics'' 8888, mkPort ''http'' 8080, mkPort ''port-80'' 81, mkPort ''tcp'' 4318]"
  let ?ext = "sampleExt ?I"
  let ?params = "sampleParams ''deployment'' ?D Map.empty []"
  note ev = mkPort_def format_d_def decimal_nat.simps digit_char_def
  obtain s where s: "Service ?ext ?params = Inr (Some s)"
    by (simp add: Service_def mergedPorts_def sampleParams_def Let_def split_beta)
  have D: "declaredPorts ?params = ?D"
    by (simp add: sampleParams_def)
  have I: "constants_CloudwatchAgentPorts ?ext = ?I"
    by (simp add: sampleExt_def)
  note t1 = filterPort_decision [of "[mkPort ''metrics'' 8888]" "mkPort ''metrics'' 4317" ?ext ?params s]
  note t2 = filterPort_decision [of "[mkPort ''http'' 8080, mkPort ''port-80'' 81]" "mkPort ''http'' 80" ?ext ?params s]
  note t3 = filterPort_decision [of "[mkPort ''tcp'' 4318]" "mkPort ''otlp'' 4318" ?ext ?params s]
  note t4 = filterPort_decision [of "[mkPort ''metrics'' 8888]" "mkPort ''xray'' 2000" ?ext ?params s]
  have n1: "fallbackName 4317 = ''port-4317''" and d1: "isDecimalOf ''4317'' 4317"
    using t1 by (simp_all add: ev)
  have n2: "fallbackName 80 = ''port-80''" and d2: "isDecimalOf ''80'' 80"
    using t2 by (simp_all add: ev)
  have a: "declaredFilter [mkPort ''metrics'' 8888] (mkPort ''metrics'' 4317) = Some (mkPort ''port-4317'' 4317)"
    using t1 [THEN conjunct1] by (simp add: mkPort_def n1)
  have b: "declaredFilter [mkPort ''http'' 8080, mkPort ''port-80'' 81] (mkPort ''http'' 80) = None"
    using t2 [THEN conjunct1] by (simp add: mkPort_def n2)
  have c: "declaredFilter [mkPort ''tcp'' 4318] (mkPort ''otlp'' 4318) = None"
    using t3 [THEN conjunct1] by (simp add: mkPort_def)
  have d: "declaredFilter [mkPort ''metrics'' 8888] (mkPort ''xray'' 2000) = Some (mkPort ''xray'' 2000)"
    using t4 [THEN conjunct1] by (simp add: mkPort_def)
  have "ss_Ports (svc_Spec s) = ?D @ List.map_filter (declaredFilter ?D) ?I"
    using t1 s unfolding D I by simp
  also have "\<dots> = ?D @ [mkPort ''port-4317'' 4317, mkPort ''xray'' 2000]"
    by (simp add: List.map_filter_simps declaredFilter_cases fallbackName_def ev)
  finally have e: "portsOf (Service ?ext ?params) = ?D @ [mkPort ''port-4317'' 4317, mkPort ''xray'' 2000]"
    using s by (simp add: portsOf_def)
  have f: "isBuilt (Service ?ext ?params)"
    using s by (simp add: isBuilt_def)
  from n1 n2 d1 d2 a b c d e f show ?thesis by simp
qed

subsection \<open>C5: the two missing-image failures\<close>

text \<open>
  Claim C5: the default-instrumentation builder returns an error, and so no descriptor, when
  the Java image reference is not set (the error names the Java image) and when the Java one
  is set and the Python one is not (the error names the Python image); it returns an error in
  no other case.
\<close>

theorem default_instrumentation_failure_modes:
  "(env ''AUTO_INSTRUMENTATION_JAVA'' = None \<longrightarrow>
      getDefaultInstrumentation env = Inl (Error ''unable to determine java instrumentation image'')) \<and>
   (env ''AUTO_INSTRUMENTATION_JAVA'' \<noteq> None \<and> env ''AUTO_INSTRUMENTATION_PYTHON'' = None \<longrightarrow>
      getDefaultInstrumentation env = Inl (Error ''unable to determine python instrumentation image'')) \<and>
   (isl (getDefaultInstrumentation env) \<longleftrightarrow>
      env ''AUTO_INSTRUMENTATION_JAVA'' = None \<or> env ''AUTO_INSTRUMENTATION_PYTHON'' = None)"
  by (auto simp: getDefaultInstrumentation_def split: option.splits)

theorem default_instrumentation_failure_modes_witness:
  "getDefaultInstrumentation Map.empty =
     Inl (Error ''unable to determine java instrumentation image'') \<and>
   getDefaultInstrumentation [''AUTO_INSTRUMENTATION_JAVA'' \<mapsto> ''java:1''] =
     Inl (Error ''unable to determine python instrumentation image'') \<and>
   isl (getDefaultInstrumentation env_both) = False"
  using default_instrumentation_failure_modes [of Map.empty]
    default_instrumentation_failure_modes [of "[''AUTO_INSTRUMENTATION_JAVA'' \<mapsto> ''java:1'']"]
    default_instrumentation_failure_modes [of env_both]
  by (simp add: env_both_def)

subsection \<open>C6: the monitoring service\<close>

text \<open>
  Claim C6: the monitoring builder returns the adapter's error when the configuration text
  does not parse, and when no metrics port can be derived from the parsed configuration;
  otherwise it returns a service with exactly one port, named \<open>monitoring\<close> and carrying the
  metrics port, with an empty cluster address and the workload's selector labels as selector.
\<close>

theorem MonitoringService_result:
  "(adapters_ConfigFromString ext (spec_Config (cr_Spec (OtelCol params))) = Inl e \<longrightarrow>
      MonitoringService ext params = Inl e) \<and>
   (adapters_ConfigFromString ext (spec_Config (cr_Spec (OtelCol params))) = Inr c \<and>
    adapters_ConfigToMetricsPort ext c = Inl e \<longrightarrow>
      MonitoringService ext params = Inl e) \<and>
   (adapters_ConfigFromString ext (spec_Config (cr_Spec (OtelCol params))) = Inr c \<and>
    adapters_ConfigToMetricsPort ext c = Inr metricsPort \<longrightarrow>
      (\<exists>s. MonitoringService ext params = Inr (Some s) \<and>
           ss_Ports (svc_Spec s) = [mkPort ''monitoring'' metricsPort] \<and>
           ss_ClusterIP (svc_Spec s) = [] \<and>
           ss_Selector (svc_Spec s) =
             manifestutils_SelectorLabels ext (workloadMeta params) (ComponentAmazonCloudWatchAgent ext)))"
  by (simp add: MonitoringService_def Let_def mkPort_def)

theorem MonitoringService_result_witness:
  "errorOf (MonitoringService (sampleExt []) (sampleParams ''deployment'' [] Map.empty [])) =
     Some (Error ''cannot parse'') \<and>
   errorOf (MonitoringService (sampleExt []) (sampleParams ''deployment'' [] Map.empty ''no-port'')) =
     Some (Error ''no metrics port'') \<and>
   portsOf (MonitoringService (sampleExt []) (sampleParams ''deployment'' [] Map.empty ''receivers'')) =
     [mkPort ''monitoring'' 8888]"
proof -
  let ?ext = "sampleExt []"
  let ?p1 = "sampleParams ''deployment'' [] Map.empty []"
  let ?p2 = "sampleParams ''deployment'' [] Map.empty ''no-port''"
  let ?p3 = "sampleParams ''deployment'' [] Map.empty ''receivers''"
  have parse1: "adapters_ConfigFromString ?ext (spec_Config (cr_Spec (OtelCol ?p1))) = Inl (Error ''cannot parse'')"
    by (simp add: sampleExt_def sampleParams_def)
  have parse2: "adapters_ConfigFromString ?ext (spec_Config (cr_Spec (OtelCol ?p2))) = Inr ''no-port''"
    by (simp add: sampleExt_def sampleParams_def)
  have port2: "adapters_ConfigToMetricsPort ?ext ''no-port'' = Inl (Error ''no metrics port'')"
    by (simp add: sampleExt_def)
  have parse3: "adapters_ConfigFromString ?ext (spec_Config (cr_Spec (OtelCol ?p3))) = Inr ''receivers''"
    by (simp add: sampleExt_def sampleParams_def)
  have port3: "adapters_ConfigToMetricsPort ?ext ''receivers'' = Inr 8888"
    by (simp add: sampleExt_def)
  have a: "MonitoringService ?ext ?p1 = Inl (Error ''cannot parse'')"
    using MonitoringService_result [of ?ext ?p1 "Error ''cannot parse''"] parse1 by blast
  have b: "MonitoringService ?ext ?p2 = Inl (Error ''no metrics port'')"
    using MonitoringService_result [of ?ext ?p2 "Error ''no metrics port''" "''no-port''"] parse2 port2
    by blast
  obtain s where c: "MonitoringService ?ext ?p3 = Inr (Some s)"
      "ss_Ports (svc_Spec s) = [mkPort ''monitoring'' 8888]"
    using MonitoringService_result [of ?ext ?p3 _ "''receivers''" 8888] parse3 port3 by blast
  from a b c show ?thesis by (simp add: errorOf_def portsOf_def)
qed

subsection \<open>C7: no ports, no service\<close>

text \<open>
  Claim C7: when the merged port list is empty, the base builder returns no service and no
  error.
\<close>

theorem Service_nil_when_no_ports:
  "mergedPorts (constants_CloudwatchAgentPorts ext) (declaredPorts params) = [] \<Longrightarrow>
     Service ext params = Inr None"
  by (simp add: Service_def Let_def)

theorem Service_nil_when_no_ports_witness:
  "mergedPorts (constants_CloudwatchAgentPorts (sampleExt []))
      (declaredPorts (sampleParams ''deployment'' [] Map.empty [])) = [] \<and>
   Service (sampleExt []) (sampleParams ''deployment'' [] Map.empty []) = Inr None"
proof -
  have h: "mergedPorts (constants_CloudwatchAgentPorts (sampleExt []))
      (declaredPorts (sampleParams ''deployment'' [] Map.empty [])) = []"
    by (simp add: mergedPorts_def sampleExt_def sampleParams_def)
  from h Service_nil_when_no_ports [OF h] show ?thesis by simp
qed

subsection \<open>C8: the headless service\<close>

text \<open>
  Claim C8, as stated, fails: when the workload's annotations already hold the serving
  certificate key, the headless service carries the workload's value under it, not the
  synthesized one made from its own name.
\<close>

theorem HeadlessService_tls_annotation_counterexample:
  "isBuilt (Service (sampleExt []) (sampleParams ''deployment'' [mkPort ''metrics'' 8888]
       [servingCertKey \<mapsto> ''my-secret''] [])) \<and>
   isBuilt (HeadlessService (sampleExt []) (sampleParams ''deployment'' [mkPort ''metrics'' 8888]
       [servingCertKey \<mapsto> ''my-secret''] [])) \<and>
   nameOf (HeadlessService (sampleExt []) (sampleParams ''deployment'' [mkPort ''metrics'' 8888]
       [servingCertKey \<mapsto> ''my-secret''] [])) = ''agent-headless'' \<and>
   annotationsOf (HeadlessService (sampleExt []) (sampleParams ''deployment'' [mkPort ''metrics'' 8888]
       [servingCertKey \<mapsto> ''my-secret''] [])) servingCertKey \<noteq> Some ''agent-headless-tls''"
  by (simp add: HeadlessService_def sample_defs isBuilt_def nameOf_def annotationsOf_def)

text \<open>
  Claim C8, amended: when the base builder returns a service with annotations \<open>A\<close>, the
  headless builder returns a service named by \<open>naming.HeadlessService\<close> of the workload's
  name, with cluster address \<open>None\<close>, with the headless label set to \<open>Exists\<close>, and with
  annotations that include every entry of \<open>A\<close>; when \<open>A\<close> has no entry under the serving
  certificate key, they also hold the synthesized entry, the new name followed by \<open>-tls\<close>.
  When the base builder returns no service, or an error, the headless builder returns the same.
\<close>

theorem HeadlessService_derivation:
  "(Service ext params = Inr (Some b) \<longrightarrow>
      (\<exists>h. HeadlessService ext params = Inr (Some h) \<and>
           om_Name (svc_ObjectMeta h) = naming_HeadlessService ext (om_Name (workloadMeta params)) \<and>
           ss_ClusterIP (svc_Spec h) = ''None'' \<and>
           om_Labels (svc_ObjectMeta h) headlessLabel = Some headlessExists \<and>
           om_Annotations (svc_ObjectMeta b) \<subseteq>\<^sub>m om_Annotations (svc_ObjectMeta h) \<and>
           (om_Annotations (svc_ObjectMeta b) servingCertKey = None \<longrightarrow>
              om_Annotations (svc_ObjectMeta h) servingCertKey =
                Some (om_Name (svc_ObjectMeta h) @ ''-tls'')))) \<and>
   (Service ext params = Inr None \<longrightarrow> HeadlessService ext params = Inr None) \<and>
   (Service ext params = Inl e \<longrightarrow> HeadlessService ext params = Inl e)"
  by (auto simp: HeadlessService_def Let_def map_add_def map_le_def split: option.splits)

theorem HeadlessService_derivation_witness:
  "nameOf (HeadlessService (sampleExt []) (sampleParams ''deployment'' [mkPort ''metrics'' 8888]
       [''team'' \<mapsto> ''obs''] [])) = ''agent-headless'' \<and>
   annotationsOf (HeadlessService (sampleExt []) (sampleParams ''deployment'' [mkPort ''metrics'' 8888]
       [''team'' \<mapsto> ''obs''] [])) servingCertKey = Some ''agent-headless-tls'' \<and>
   annotationsOf (HeadlessService (sampleExt []) (sampleParams ''deployment'' [mkPort ''metrics'' 8888]
       [''team'' \<mapsto> ''obs''] [])) ''team'' = Some ''obs'' \<and>
   HeadlessService (sampleExt []) (sampleParams ''deployment'' [] Map.empty []) = Inr None"
proof -
  let ?ext = "sampleExt []"
  let ?p = "sampleParams ''deployment'' [mkPort ''metrics'' 8888] [''team'' \<mapsto> ''obs''] []"
  let ?q = "sampleParams ''deployment'' [] Map.empty []"
  obtain b where b: "Service ?ext ?p = Inr (Some b)"
    by (simp add: Service_def mergedPorts_def sampleParams_def Let_def split_beta)
  then have A: "om_Annotations (svc_ObjectMeta b) = [''team'' \<mapsto> ''obs'']"
    by (auto simp: Service_def Let_def sampleParams_def split: if_splits)
  have none: "Service ?ext ?q = Inr None"
    by (simp add: Service_def mergedPorts_def sampleParams_def sampleExt_def)
  from HeadlessService_derivation [of ?ext ?p b] b
  obtain h where h: "HeadlessService ?ext ?p = Inr (Some h)"
    "om_Name (svc_ObjectMeta h) = naming_HeadlessService ?ext (om_Name (workloadMeta ?p))"
    "om_Annotations (svc_ObjectMeta b) \<subseteq>\<^sub>m om_Annotations (svc_ObjectMeta h)"
    "om_Annotations (svc_ObjectMeta b) servingCertKey = None \<longrightarrow>
       om_Annotations (svc_ObjectMeta h) servingCertKey = Some (om_Name (svc_ObjectMeta h) @ ''-tls'')"
    by blast
  have name: "om_Name (svc_ObjectMeta h) = ''agent-headless''"
    using h(2) by (simp add: sampleExt_def sampleParams_def)
  have tls: "om_Annotations (svc_ObjectMeta h) servingCertKey = Some ''agent-headless-tls''"
    using h(4) name by (simp add: A servingCertKey_def)
  have team: "om_Annotations (svc_ObjectMeta h) ''team'' = Some ''obs''"
    using h(3) by (simp add: A map_le_def)
  from HeadlessService_derivation [of ?ext ?q] none
  have "HeadlessService ?ext ?q = Inr None" by simp
  with h(1) name tls team show ?thesis
    by (simp add: nameOf_def annotationsOf_def)
qed

subsection \<open>C9: the internal traffic policy\<close>

text \<open>
  Claim C9: in the service that the base builder returns, the internal traffic policy is
  \<open>Local\<close> exactly when the workload's mode is \<open>ModeDaemonSet\<close>, and \<open>Cluster\<close> exactly
  when it is any other mode.
\<close>

theorem Service_traffic_policy:
  "Service ext params = Inr (Some s) \<Longrightarrow>
     (ss_InternalTrafficPolicy (svc_Spec s) = Some ServiceInternalTrafficPolicyLocal \<longleftrightarrow>
        spec_Mode (cr_Spec (OtelCol params)) = v1alpha1_ModeDaemonSet ext) \<and>
     (ss_InternalTrafficPolicy (svc_Spec s) = Some ServiceInternalTrafficPolicyCluster \<longleftrightarrow>
        spec_Mode (cr_Spec (OtelCol params)) \<noteq> v1alpha1_ModeDaemonSet ext)"
  by (auto simp: Service_def Let_def split: if_splits)

theorem Service_traffic_policy_witness:
  "policyOf (Service (sampleExt []) (sampleParams ''daemonset'' [mkPort ''metrics'' 8888] Map.empty []))
     = Some ServiceInternalTrafficPolicyLocal \<and>
   policyOf (Service (sampleExt []) (sampleParams ''statefulset'' [mkPort ''metrics'' 8888] Map.empty []))
     = Some ServiceInternalTrafficPolicyCluster"
proof -
  let ?ext = "sampleExt []"
  let ?p1 = "sampleParams ''daemonset'' [mkPort ''metrics'' 8888] Map.empty []"
  let ?p2 = "sampleParams ''statefulset'' [mkPort ''metrics'' 8888] Map.empty []"
  obtain s1 where s1: "Service ?ext ?p1 = Inr (Some s1)"
    by (simp add: Service_def mergedPorts_def sampleParams_def Let_def split_beta)
  obtain s2 where s2: "Service ?ext ?p2 = Inr (Some s2)"
    by (simp add: Service_def mergedPorts_def sampleParams_def Let_def split_beta)
  have m1: "spec_Mode (cr_Spec (OtelCol ?p1)) = v1alpha1_ModeDaemonSet ?ext"
    by (simp add: sampleParams_def sampleExt_def)
  have m2: "spec_Mode (cr_Spec (OtelCol ?p2)) \<noteq> v1alpha1_ModeDaemonSet ?ext"
    by (simp add: sampleParams_def sampleExt_def)
  from Service_traffic_policy [OF s1] m1 Service_traffic_policy [OF s2] m2 s1 s2
  show ?thesis by (simp add: policyOf_def)
qed

subsection \<open>C10: a serving certificate annotation of the caller\<close>

text \<open>
  Claim C10, as stated, fails in its last part: when the workload's own value under the
  serving certificate key is the very text the builder synthesizes, the result holds that text
  under the key, so the synthesized value is not absent from the result.
\<close>

theorem HeadlessService_synthesized_value_counterexample:
  "om_Annotations (workloadMeta (sampleParams ''deployment'' [mkPort ''metrics'' 8888]
       [servingCertKey \<mapsto> ''agent-headless-tls''] [])) servingCertKey = Some ''agent-headless-tls'' \<and>
   isBuilt (HeadlessService (sampleExt []) (sampleParams ''deployment'' [mkPort ''metrics'' 8888]
       [servingCertKey \<mapsto> ''agent-headless-tls''] [])) \<and>
   nameOf (HeadlessService (sampleExt []) (sampleParams ''deployment'' [mkPort ''metrics'' 8888]
       [servingCertKey \<mapsto> ''agent-headless-tls''] [])) = ''agent-headless'' \<and>
   annotationsOf (HeadlessService (sampleExt []) (sampleParams ''deployment'' [mkPort ''metrics'' 8888]
       [servingCertKey \<mapsto> ''agent-headless-tls''] [])) servingCertKey = Some ''agent-headless-tls''"
  by (simp add: HeadlessService_def sample_defs isBuilt_def nameOf_def annotationsOf_def)

text \<open>
  Claim C10, amended: when the workload's annotations hold the serving certificate key, the
  headless service's annotations are the one synthesized entry with the workload's
  annotations laid over it, so they carry the workload's value under that key; the synthesized
  value stands under the key only when the workload's value is that same text.
\<close>

theorem HeadlessService_caller_tls_annotation_wins:
  "om_Annotations (workloadMeta params) servingCertKey = Some v \<Longrightarrow>
   Service ext params = Inr (Some b) \<Longrightarrow>
   \<exists>h. HeadlessService ext params = Inr (Some h) \<and>
        om_Annotations (svc_ObjectMeta h) =
          [servingCertKey \<mapsto> om_Name (svc_ObjectMeta h) @ ''-tls''] ++ om_Annotations (workloadMeta params) \<and>
        om_Annotations (svc_ObjectMeta h) servingCertKey = Some v \<and>
        (om_Annotations (svc_ObjectMeta h) servingCertKey = Some (om_Name (svc_ObjectMeta h) @ ''-tls'')
           \<longleftrightarrow> v = om_Name (svc_ObjectMeta h) @ ''-tls'')"
proof -
  assume v: "om_Annotations (workloadMeta params) servingCertKey = Some v"
    and b: "Service ext params = Inr (Some b)"
  from HeadlessService_annotations [OF b]
  obtain h where h: "HeadlessService ext params = Inr (Some h)"
    "om_Annotations (svc_ObjectMeta h) =
       [servingCertKey \<mapsto> om_Name (svc_ObjectMeta h) @ ''-tls''] ++ om_Annotations (workloadMeta params)"
    by blast
  from h(2) v have "om_Annotations (svc_ObjectMeta h) servingCertKey = Some v"
    by (simp add: map_add_Some_iff)
  with h show ?thesis by auto
qed

theorem HeadlessService_caller_tls_annotation_wins_witness:
  "annotationsOf (HeadlessService (sampleExt [mkPort ''otlp'' 4317]) (sampleParams ''daemonset'' []
       [servingCertKey \<mapsto> ''my-secret''] [])) servingCertKey = Some ''my-secret'' \<and>
   annotationsOf (HeadlessService (sampleExt [mkPort ''otlp'' 4317]) (sampleParams ''daemonset'' []
       [servingCertKey \<mapsto> ''my-secret''] [])) servingCertKey \<noteq>
     Some (nameOf (HeadlessService (sampleExt [mkPort ''otlp'' 4317]) (sampleParams ''daemonset'' []
       [servingCertKey \<mapsto> ''my-secret''] [])) @ ''-tls'')"
proof -
  let ?ext = "sampleExt [mkPort ''otlp'' 4317]"
  let ?p = "sampleParams ''daemonset'' [] [servingCertKey \<mapsto> ''my-secret''] []"
  have a: "om_Annotations (workloadMeta ?p) servingCertKey = Some ''my-secret''"
    by (simp add: sampleParams_def)
  obtain b where b: "Service ?ext ?p = Inr (Some b)"
    by (simp add: Service_def mergedPorts_def sampleParams_def sampleExt_def Let_def split_beta)
  from HeadlessService_caller_tls_annotation_wins [OF a b]
  obtain h where h: "HeadlessService ?ext ?p = Inr (Some h)"
    "om_Annotations (svc_ObjectMeta h) servingCertKey = Some ''my-secret''"
    "om_Annotations (svc_ObjectMeta h) servingCertKey = Some (om_Name (svc_ObjectMeta h) @ ''-tls'')
       \<longleftrightarrow> ''my-secret'' = om_Name (svc_ObjectMeta h) @ ''-tls''"
    by blast
  have "om_Name (svc_ObjectMeta h) = ''agent-headless''"
    using h(1) b
    by (auto simp: HeadlessService_def Let_def sampleExt_def sampleParams_def)
  with h show ?thesis
    by (simp add: annotationsOf_def nameOf_def)
qed

end
